theory Spec2Isabelle
  imports Main "HOL-Library.Sublist"
begin

section \<open>Values exchanged with the editor host\<close>

text \<open>
  The extension (\<^verbatim>\<open>src/extension.ts\<close>) talks to three host facilities: the task API
  (tasks, task groups, shell executions), an output channel, and a child process that runs
  \<^verbatim>\<open>snakemake --list\<close>. Strings are character lists; the two characters the line
  splitter looks at are named.
\<close>

abbreviation LF :: char where "LF \<equiv> CHR 0x0A"
abbreviation CR :: char where "CR \<equiv> CHR 0x0D"

datatype TaskGroup = Clean | Build | Rebuild | Test

record SnakemakeTaskDefinition =
  def_type :: string
  def_task :: string
  def_file :: "string option"

datatype ShellExecution = ShellExecution string

record Task =
  task_definition :: SnakemakeTaskDefinition
  task_name :: string
  task_source :: string
  task_execution :: ShellExecution
  task_group :: "TaskGroup option"

text \<open>\<^verbatim>\<open>new vscode.Task(kind, name, source, execution)\<close>: the group starts undefined.\<close>

definition new_Task :: "SnakemakeTaskDefinition \<Rightarrow> string \<Rightarrow> string \<Rightarrow> ShellExecution \<Rightarrow> Task" where
  "new_Task kind nm src ex =
     \<lparr>task_definition = kind, task_name = nm, task_source = src,
      task_execution = ex, task_group = None\<rparr>"

subsection \<open>The output channel\<close>

text \<open>
  The channel is created on first use and kept in the module variable \<^verbatim>\<open>_channel\<close>
  (\<open>None\<close> while it does not exist). What is observable of it is its name and the sequence
  of operations performed on it.
\<close>

datatype ChannelOp = AppendLine string | Show bool

record OutputChannel =
  channel_name :: string
  channel_ops :: "ChannelOp list"

definition getOutputChannel :: "OutputChannel option \<Rightarrow> OutputChannel" where
  "getOutputChannel c =
     (case c of
        None \<Rightarrow> \<lparr>channel_name = ''Snakemake Auto Detection'', channel_ops = []\<rparr>
      | Some ch \<Rightarrow> ch)"

definition appendLine :: "string \<Rightarrow> OutputChannel \<Rightarrow> OutputChannel" where
  "appendLine s ch = ch\<lparr>channel_ops := channel_ops ch @ [AppendLine s]\<rparr>"

text \<open>\<^verbatim>\<open>channel.show(preserveFocus)\<close>, under a name that is free here.\<close>

definition reveal :: "bool \<Rightarrow> OutputChannel \<Rightarrow> OutputChannel" where
  "reveal preserveFocus ch = ch\<lparr>channel_ops := channel_ops ch @ [Show preserveFocus]\<rparr>"

text \<open>The operations logged so far (none when the channel was never created).\<close>

definition logged :: "OutputChannel option \<Rightarrow> ChannelOp list" where
  "logged c = (case c of None \<Rightarrow> [] | Some ch \<Rightarrow> channel_ops ch)"

subsection \<open>Promises and the child process\<close>

datatype ('a, 'e) promise = Pending | Fulfilled 'a | Rejected 'e

text \<open>Settling a promise a second time has no effect.\<close>

definition resolve :: "'a \<Rightarrow> ('a, 'e) promise \<Rightarrow> ('a, 'e) promise" where
  "resolve v p = (case p of Pending \<Rightarrow> Fulfilled v | _ \<Rightarrow> p)"

definition reject :: "'e \<Rightarrow> ('a, 'e) promise \<Rightarrow> ('a, 'e) promise" where
  "reject e p = (case p of Pending \<Rightarrow> Rejected e | _ \<Rightarrow> p)"

datatype ExecException = ExitedWith int | SpawnFailed string

record ExecOutput =
  out_stdout :: string
  out_stderr :: string

record ExecRejection =
  rej_error :: ExecException
  rej_stdout :: string
  rej_stderr :: string

text \<open>
  \<^verbatim>\<open>exec\<close>: the callback of \<^verbatim>\<open>cp.exec\<close> receives \<^verbatim>\<open>(error, stdout, stderr)\<close>. With an
  error it rejects, and then falls through to \<^verbatim>\<open>resolve\<close>, which finds the promise
  already settled.
\<close>

definition exec_callback ::
  "ExecException option \<Rightarrow> string \<Rightarrow> string \<Rightarrow> (ExecOutput, ExecRejection) promise" where
  "exec_callback error out err =
     resolve \<lparr>out_stdout = out, out_stderr = err\<rparr>
       (case error of
          Some e \<Rightarrow> reject \<lparr>rej_error = e, rej_stdout = out, rej_stderr = err\<rparr> Pending
        | None \<Rightarrow> Pending)"

section \<open>Name predicates\<close>

text \<open>\<^verbatim>\<open>String.prototype.indexOf\<close>: the first position where the pattern starts, or -1.\<close>

fun indexOf_from :: "string \<Rightarrow> string \<Rightarrow> nat \<Rightarrow> int" where
  "indexOf_from [] pat k = (if pat = [] then int k else - 1)"
| "indexOf_from (c # cs) pat k =
     (if prefix pat (c # cs) then int k else indexOf_from cs pat (Suc k))"

definition indexOf :: "string \<Rightarrow> string \<Rightarrow> int" where
  "indexOf s pat = indexOf_from s pat 0"

definition buildNames :: "string list" where
  "buildNames = [''build'', ''compile'', ''watch'']"

definition testNames :: "string list" where
  "testNames = [''test'']"

text \<open>The \<^verbatim>\<open>for ... of\<close> loop of both predicates: true at the first pattern found.\<close>

fun anyIndexOf :: "string list \<Rightarrow> string \<Rightarrow> bool" where
  "anyIndexOf [] nm = False"
| "anyIndexOf (pat # pats) nm = (if indexOf nm pat \<noteq> - 1 then True else anyIndexOf pats nm)"

definition isBuildTask :: "string \<Rightarrow> bool" where
  "isBuildTask nm = anyIndexOf buildNames nm"

definition isTestTask :: "string \<Rightarrow> bool" where
  "isTestTask nm = anyIndexOf testNames nm"

text \<open>
  The classification as the specification words it (Build first, then Test, else none),
  over the two predicates of the source. It is stated here for comparison with what
  discovery assigns.
\<close>

definition classification_spec :: "string \<Rightarrow> TaskGroup option" where
  "classification_spec nm =
     (if isBuildTask nm then Some Build else if isTestTask nm then Some Test else None)"

section \<open>Task discovery\<close>

text \<open>
  \<^verbatim>\<open>stdout.split(/\r{0,1}\n/)\<close>: scanning from the left, a line feed, or a carriage return
  directly followed by a line feed, ends the current piece; any other character (a lone
  carriage return too) joins it. The piece after the last separator is always emitted.
\<close>

fun split_from :: "string \<Rightarrow> string \<Rightarrow> string list" where
  "split_from cur [] = [cur]"
| "split_from cur [c] = (if c = LF then [cur, []] else [cur @ [c]])"
| "split_from cur (c # d # cs) =
     (if c = CR \<and> d = LF then cur # split_from [] cs
      else if c = LF then cur # split_from [] (d # cs)
      else split_from (cur @ [c]) (d # cs))"

definition split_lines :: "string \<Rightarrow> string list" where
  "split_lines s = split_from [] s"

text \<open>The body of the loop over the lines, for a line that is not skipped.\<close>

definition make_task :: "string \<Rightarrow> Task" where
  "make_task line =
     (let taskName = line;
          kind = \<lparr>def_type = ''snakemake'', def_task = taskName, def_file = None\<rparr>;
          task = new_Task kind taskName ''snakemake''
                   (ShellExecution (''snakemake '' @ taskName))
      in task\<lparr>task_group := Some Build\<rparr>)"

fun collect_tasks :: "string list \<Rightarrow> Task list \<Rightarrow> Task list" where
  "collect_tasks [] result = result"
| "collect_tasks (line # lines) result =
     (if length line = 0 then collect_tasks lines result
      else collect_tasks lines (result @ [make_task line]))"

text \<open>
  A discovery pass suspends twice: on the existence check and on the child process. Its
  state is where it waits, or how it settled (\<open>Inl\<close> a rejection, \<open>Inr\<close> the task list).
  The calls it makes to the host are recorded.
\<close>

datatype HostCall = FsExists string | CpExec string string

datatype Discovery =
    AwaitExists string
  | AwaitExec
  | Done "ExecRejection + Task list"

text \<open>
  \<^verbatim>\<open>!workspaceRoot\<close> holds for \<^verbatim>\<open>undefined\<close> and for the empty string.
  \<^verbatim>\<open>path.join\<close> belongs to the runtime and is a parameter.
\<close>

definition getSnakemakeTasks_start ::
  "(string \<Rightarrow> string \<Rightarrow> string) \<Rightarrow> string option \<Rightarrow> Discovery \<times> HostCall list" where
  "getSnakemakeTasks_start pjoin rootPath =
     (case rootPath of
        None \<Rightarrow> (Done (Inr []), [])
      | Some workspaceRoot \<Rightarrow>
          if workspaceRoot = [] then (Done (Inr []), [])
          else (AwaitExists workspaceRoot, [FsExists (pjoin workspaceRoot ''Snakefile'')]))"

definition getSnakemakeTasks_exists :: "string \<Rightarrow> bool \<Rightarrow> Discovery \<times> HostCall list" where
  "getSnakemakeTasks_exists workspaceRoot found =
     (if \<not> found then (Done (Inr []), [])
      else (AwaitExec, [CpExec ''snakemake --list'' workspaceRoot]))"

definition getSnakemakeTasks_exec ::
  "(ExecOutput, ExecRejection) promise \<Rightarrow> OutputChannel option
     \<Rightarrow> Discovery \<times> OutputChannel option" where
  "getSnakemakeTasks_exec settled c =
     (case settled of
        Pending \<Rightarrow> (AwaitExec, c)
      | Fulfilled r \<Rightarrow>
          (let c1 = (if out_stderr r \<noteq> [] \<and> length (out_stderr r) > 0
                     then (let ca = Some (appendLine (out_stderr r) (getOutputChannel c))
                           in Some (reveal True (getOutputChannel ca)))
                     else c);
               result = (if out_stdout r \<noteq> []
                         then collect_tasks (split_lines (out_stdout r)) []
                         else [])
           in (Done (Inr result), c1))
      | Rejected err \<Rightarrow>
          (let channel = getOutputChannel c;
               ch1 = (if rej_stderr err \<noteq> [] then appendLine (rej_stderr err) channel
                      else channel);
               ch2 = (if rej_stdout err \<noteq> [] then appendLine (rej_stdout err) ch1
                      else ch1);
               ch3 = appendLine ''Auto detecting Snakemake tasts failed.'' ch2;
               ch4 = reveal True ch3
           in (Done (Inr []), Some ch4)))"

text \<open>
  One whole pass against a host that answers every call: the workspace root at the moment
  the pass starts, the file system, and the outcome of the child process.
\<close>

record Host =
  workspace_rootPath :: "string option"
  fs_exists :: "string \<Rightarrow> bool"
  cp_exec :: "string \<Rightarrow> string \<Rightarrow> ExecException option \<times> string \<times> string"

definition getSnakemakeTasks ::
  "(string \<Rightarrow> string \<Rightarrow> string) \<Rightarrow> Host \<Rightarrow> OutputChannel option
     \<Rightarrow> Discovery \<times> OutputChannel option \<times> HostCall list" where
  "getSnakemakeTasks pjoin h c =
     (case getSnakemakeTasks_start pjoin (workspace_rootPath h) of
        (AwaitExists workspaceRoot, calls1) \<Rightarrow>
          (case getSnakemakeTasks_exists workspaceRoot
                  (fs_exists h (pjoin workspaceRoot ''Snakefile'')) of
             (AwaitExec, calls2) \<Rightarrow>
               (case cp_exec h ''snakemake --list'' workspaceRoot of
                  (error, out, err) \<Rightarrow>
                    (case getSnakemakeTasks_exec (exec_callback error out err) c of
                       (d, c') \<Rightarrow> (d, c', calls1 @ calls2)))
           | (d, calls2) \<Rightarrow> (d, c, calls1 @ calls2))
      | (d, calls1) \<Rightarrow> (d, c, calls1))"

text \<open>The tasks a settled pass resolved with (none for a rejection or a pass still waiting).\<close>

definition tasks_of :: "Discovery \<Rightarrow> Task list" where
  "tasks_of d = (case d of Done (Inr ts) \<Rightarrow> ts | _ \<Rightarrow> [])"

section \<open>The cache slot and the file watcher\<close>

text \<open>
  \<^verbatim>\<open>activate\<close> keeps one variable, \<^verbatim>\<open>snakemakePromise\<close>, that holds the promise of the
  current discovery pass or nothing. Promises are objects with identity: the extension state
  keeps every promise created so far, in creation order, and the slot holds the index of
  one of them. Host calls are recorded with the pass that made them.
\<close>

datatype FileChangeKind = Changed | Created | Deleted

record Extension =
  taskProvider :: "string option"
  fileWatcher :: "string option"
  snakemakePromise :: "nat option"
  promises :: "Discovery list"
  channel :: "OutputChannel option"
  calls :: "(nat \<times> HostCall) list"

definition inactive :: Extension where
  "inactive =
     \<lparr>taskProvider = None, fileWatcher = None, snakemakePromise = None,
      promises = [], channel = None, calls = []\<rparr>"

definition activate :: "(string \<Rightarrow> string \<Rightarrow> string) \<Rightarrow> string option \<Rightarrow> Extension" where
  "activate pjoin root =
     (case root of
        None \<Rightarrow> inactive
      | Some workspaceRoot \<Rightarrow>
          if workspaceRoot = [] then inactive
          else (let pattern = pjoin workspaceRoot ''Snakefile''
                in inactive\<lparr>fileWatcher := Some pattern, taskProvider := Some ''snakemake''\<rparr>))"

text \<open>
  \<^verbatim>\<open>provideTasks\<close>: with an empty slot a pass is started (it runs up to its first
  suspension) and its promise stored; the promise in the slot is returned.
\<close>

definition provideTasks ::
  "(string \<Rightarrow> string \<Rightarrow> string) \<Rightarrow> string option \<Rightarrow> Extension \<Rightarrow> nat \<times> Extension" where
  "provideTasks pjoin root s =
     (case snakemakePromise s of
        Some p \<Rightarrow> (p, s)
      | None \<Rightarrow>
          (let p = length (promises s);
               started = getSnakemakeTasks_start pjoin root
           in (p, s\<lparr>snakemakePromise := Some p,
                    promises := promises s @ [fst started],
                    calls := calls s @ map (Pair p) (snd started)\<rparr>)))"

text \<open>The three watcher callbacks are the same assignment.\<close>

definition onDidChange :: "Extension \<Rightarrow> Extension" where
  "onDidChange s = s\<lparr>snakemakePromise := None\<rparr>"

definition onDidCreate :: "Extension \<Rightarrow> Extension" where
  "onDidCreate s = s\<lparr>snakemakePromise := None\<rparr>"

definition onDidDelete :: "Extension \<Rightarrow> Extension" where
  "onDidDelete s = s\<lparr>snakemakePromise := None\<rparr>"

text \<open>
  What the host can do to an activated extension: ask for the tasks (the workspace root
  having some value at that moment), report a file-system event on the watched path, and
  call back a pass that waits for the existence check or for the child process. A callback
  for a pass that does not wait for it never happens and changes nothing.
\<close>

datatype Event =
    ProvideTasks "string option"
  | FileEvent FileChangeKind
  | ExistsCallback nat bool
  | ExecCallback nat "ExecException option" string string

fun step :: "(string \<Rightarrow> string \<Rightarrow> string) \<Rightarrow> Extension \<Rightarrow> Event \<Rightarrow> Extension" where
  "step pjoin s (ProvideTasks root) =
     (if taskProvider s = None then s else snd (provideTasks pjoin root s))"
| "step pjoin s (FileEvent k) =
     (if fileWatcher s = None then s
      else (case k of Changed \<Rightarrow> onDidChange s | Created \<Rightarrow> onDidCreate s
            | Deleted \<Rightarrow> onDidDelete s))"
| "step pjoin s (ExistsCallback p found) =
     (if p < length (promises s)
      then (case promises s ! p of
              AwaitExists workspaceRoot \<Rightarrow>
                (let resumed = getSnakemakeTasks_exists workspaceRoot found
                 in s\<lparr>promises := (promises s)[p := fst resumed],
                      calls := calls s @ map (Pair p) (snd resumed)\<rparr>)
            | _ \<Rightarrow> s)
      else s)"
| "step pjoin s (ExecCallback p error out err) =
     (if p < length (promises s)
      then (case promises s ! p of
              AwaitExec \<Rightarrow>
                (let resumed = getSnakemakeTasks_exec (exec_callback error out err) (channel s)
                 in s\<lparr>promises := (promises s)[p := fst resumed],
                      channel := snd resumed\<rparr>)
            | _ \<Rightarrow> s)
      else s)"









section \<open>Tool output as lines\<close>

text \<open>
  The output of \<^verbatim>\<open>snakemake --list\<close> written as its lines: each line with the ending
  that follows it (\<open>True\<close> for carriage return plus line feed, \<open>False\<close> for a bare line feed)
  and the text after the last ending. A line holds no line feed, and a line before a bare
  line feed does not end in a carriage return (that character would belong to the ending).
  Every string has such a reading.
\<close>

definition line_ending :: "bool \<Rightarrow> string" where
  "line_ending crlf = (if crlf then [CR, LF] else [LF])"

definition emit_lines :: "(string \<times> bool) list \<Rightarrow> string \<Rightarrow> string" where
  "emit_lines ls rest = concat (map (\<lambda>(l, crlf). l @ line_ending crlf) ls) @ rest"

definition plain_line :: "string \<Rightarrow> bool \<Rightarrow> bool" where
  "plain_line l crlf = (LF \<notin> set l \<and> (crlf \<or> l = [] \<or> last l \<noteq> CR))"

section \<open>Example hosts\<close>

definition slash_join :: "string \<Rightarrow> string \<Rightarrow> string" where
  "slash_join a b = a @ ''/'' @ b"

text \<open>A workspace with a Snakefile where the tool succeeds with the given streams.\<close>

definition host_ok :: "string \<Rightarrow> string \<Rightarrow> Host" where
  "host_ok out err =
     \<lparr>workspace_rootPath = Some ''/w'', fs_exists = (\<lambda>p. p = ''/w/Snakefile''),
      cp_exec = (\<lambda>cmd cwd. (None, out, err))\<rparr>"

text \<open>The same workspace where the tool fails.\<close>

definition host_failing :: "ExecException \<Rightarrow> string \<Rightarrow> string \<Rightarrow> Host" where
  "host_failing e out err =
     \<lparr>workspace_rootPath = Some ''/w'', fs_exists = (\<lambda>p. p = ''/w/Snakefile''),
      cp_exec = (\<lambda>cmd cwd. (Some e, out, err))\<rparr>"

text \<open>A workspace without a Snakefile, and a window without a workspace.\<close>

definition host_no_file :: Host where
  "host_no_file =
     \<lparr>workspace_rootPath = Some ''/w'', fs_exists = (\<lambda>p. False),
      cp_exec = (\<lambda>cmd cwd. (None, ''all'' @ [LF], []))\<rparr>"

definition host_no_root :: Host where
  "host_no_root =
     \<lparr>workspace_rootPath = None, fs_exists = (\<lambda>p. True),
      cp_exec = (\<lambda>cmd cwd. (None, ''all'' @ [LF], []))\<rparr>"

definition example_stdout :: string where
  "example_stdout = ''build_all'' @ [LF] @ ''run_tests'' @ [LF] @ ''cleanup'' @ [LF]"

section \<open>Properties of the line splitter and of one discovery pass\<close>

lemma collect_tasks_eq: "collect_tasks lines acc = acc @ map make_task (filter (\<lambda>l. l \<noteq> []) lines)"
  by (induction lines arbitrary: acc) auto

lemma split_from_rest: "LF \<notin> set rest \<Longrightarrow> split_from cur rest = [cur @ rest]"
  by (induction cur rest rule: split_from.induct) auto

lemma split_from_line:
  "plain_line l crlf \<Longrightarrow>
     split_from cur (l @ line_ending crlf @ s) = (cur @ l) # split_from [] s"
proof (induction l arbitrary: cur)
  case Nil
  show ?case by (cases s) (auto simp: line_ending_def)
next
  case (Cons c l)
  from Cons.prems have c: "c \<noteq> LF" and l: "plain_line l crlf"
    by (auto simp: plain_line_def split: if_splits)
  obtain d ds where ds: "l @ line_ending crlf @ s = d # ds"
    by (cases "l @ line_ending crlf @ s") (auto simp: line_ending_def split: if_splits)
  have "\<not> (c = CR \<and> d = LF)"
  proof
    assume a: "c = CR \<and> d = LF"
    show False
    proof (cases l)
      case Nil
      with Cons.prems a ds show False
        by (auto simp: plain_line_def line_ending_def split: if_splits)
    next
      case (Cons x xs)
      with ds a l show False by (auto simp: plain_line_def)
    qed
  qed
  with c ds have "split_from cur ((c # l) @ line_ending crlf @ s)
      = split_from (cur @ [c]) (l @ line_ending crlf @ s)"
    by auto
  with Cons.IH[OF l, of "cur @ [c]"] show ?case by simp
qed

lemma split_lines_emit:
  "\<forall>(l, crlf) \<in> set ls. plain_line l crlf \<Longrightarrow> LF \<notin> set rest \<Longrightarrow>
     split_lines (emit_lines ls rest) = map fst ls @ [rest]"
  unfolding split_lines_def
proof (induction ls)
  case Nil
  then show ?case by (simp add: emit_lines_def split_from_rest)
next
  case (Cons a ls)
  obtain l crlf where a: "a = (l, crlf)" by (cases a)
  from Cons.prems a have "plain_line l crlf" by simp
  from split_from_line[OF this, of "[]" "emit_lines ls rest"] Cons a show ?case
    by (simp add: emit_lines_def)
qed

lemma every_output_has_lines:
  "\<exists>ls rest. s = emit_lines ls rest \<and> (\<forall>(l, crlf) \<in> set ls. plain_line l crlf)
     \<and> LF \<notin> set rest"
proof (induction s rule: length_induct)
  case (1 s)
  show ?case
  proof (cases "LF \<in> set s")
    case False
    then have "s = emit_lines [] s \<and> (\<forall>(l, crlf) \<in> set []. plain_line l crlf) \<and> LF \<notin> set s"
      by (simp add: emit_lines_def)
    then show ?thesis by blast
  next
    case True
    then obtain a b where ab: "s = a @ LF # b" "LF \<notin> set a"
      by (meson split_list_first)
    then have "length b < length s" by simp
    with 1 obtain ls rest where b: "b = emit_lines ls rest"
      "\<forall>(l, crlf) \<in> set ls. plain_line l crlf" "LF \<notin> set rest"
      by blast
    show ?thesis
    proof (cases "a \<noteq> [] \<and> last a = CR")
      case True
      then have a: "a = butlast a @ [CR]"
        by (metis append_butlast_last_id)
      with ab(2) have "LF \<notin> set (butlast a)"
        by (metis in_set_butlastD)
      then have "plain_line (butlast a) True" by (simp add: plain_line_def)
      moreover have "s = emit_lines ((butlast a, True) # ls) rest"
        using ab(1) a b(1) by (simp add: emit_lines_def line_ending_def)
      ultimately have "s = emit_lines ((butlast a, True) # ls) rest
          \<and> (\<forall>(l, crlf) \<in> set ((butlast a, True) # ls). plain_line l crlf) \<and> LF \<notin> set rest"
        using b(2,3) by simp
      then show ?thesis by blast
    next
      case False
      with ab(2) have "plain_line a False" by (auto simp: plain_line_def)
      moreover have "s = emit_lines ((a, False) # ls) rest"
        using ab(1) b(1) by (simp add: emit_lines_def line_ending_def)
      ultimately have "s = emit_lines ((a, False) # ls) rest
          \<and> (\<forall>(l, crlf) \<in> set ((a, False) # ls). plain_line l crlf) \<and> LF \<notin> set rest"
        using b(2,3) by simp
      then show ?thesis by blast
    qed
  qed
qed

lemma split_lines_Nil: "split_lines [] = [[]]"
  by (simp add: split_lines_def)

lemma exec_callback_ok: "exec_callback None out err = Fulfilled \<lparr>out_stdout = out, out_stderr = err\<rparr>"
  by (simp add: exec_callback_def resolve_def)

lemma exec_callback_failed:
  "exec_callback (Some e) out err = Rejected \<lparr>rej_error = e, rej_stdout = out, rej_stderr = err\<rparr>"
  by (simp add: exec_callback_def resolve_def reject_def)

lemma getSnakemakeTasks_ok:
  assumes "workspace_rootPath h = Some root" "root \<noteq> []"
    and "fs_exists h (pjoin root ''Snakefile'')"
    and "cp_exec h ''snakemake --list'' root = (None, out, err)"
  shows "getSnakemakeTasks pjoin h c =
    (Done (Inr (map make_task (filter (\<lambda>l. l \<noteq> []) (split_lines out)))),
     (if err \<noteq> [] then Some (reveal True (appendLine err (getOutputChannel c))) else c),
     [FsExists (pjoin root ''Snakefile''), CpExec ''snakemake --list'' root])"
  using assms
  by (simp add: getSnakemakeTasks_def getSnakemakeTasks_start_def getSnakemakeTasks_exists_def
      getSnakemakeTasks_exec_def exec_callback_ok collect_tasks_eq split_lines_Nil Let_def
      getOutputChannel_def)

lemma getSnakemakeTasks_failed:
  assumes "workspace_rootPath h = Some root" "root \<noteq> []"
    and "fs_exists h (pjoin root ''Snakefile'')"
    and "cp_exec h ''snakemake --list'' root = (Some e, out, err)"
  shows "getSnakemakeTasks pjoin h c =
    (Done (Inr []),
     Some (reveal True (appendLine ''Auto detecting Snakemake tasts failed.''
        ((if out \<noteq> [] then appendLine out else id)
          ((if err \<noteq> [] then appendLine err else id) (getOutputChannel c))))),
     [FsExists (pjoin root ''Snakefile''), CpExec ''snakemake --list'' root])"
  using assms
  by (simp add: getSnakemakeTasks_def getSnakemakeTasks_start_def getSnakemakeTasks_exists_def
      getSnakemakeTasks_exec_def exec_callback_failed Let_def)

lemma getSnakemakeTasks_no_file:
  assumes "workspace_rootPath h = Some root" "root \<noteq> []"
    and "\<not> fs_exists h (pjoin root ''Snakefile'')"
  shows "getSnakemakeTasks pjoin h c = (Done (Inr []), c, [FsExists (pjoin root ''Snakefile'')])"
  using assms
  by (simp add: getSnakemakeTasks_def getSnakemakeTasks_start_def getSnakemakeTasks_exists_def)

lemma getSnakemakeTasks_no_root:
  assumes "workspace_rootPath h = None \<or> workspace_rootPath h = Some []"
  shows "getSnakemakeTasks pjoin h c = (Done (Inr []), c, [])"
  using assms
  by (auto simp add: getSnakemakeTasks_def getSnakemakeTasks_start_def)

lemma tasks_shape:
  "\<exists>ls. tasks_of (fst (getSnakemakeTasks pjoin h c)) = map make_task ls"
proof (cases "workspace_rootPath h")
  case None
  then show ?thesis by (simp add: getSnakemakeTasks_no_root tasks_of_def)
next
  case (Some root)
  show ?thesis
  proof (cases "root = []")
    case True
    with Some show ?thesis by (simp add: getSnakemakeTasks_no_root tasks_of_def)
  next
    case False
    show ?thesis
    proof (cases "fs_exists h (pjoin root ''Snakefile'')")
      case nf: False
      with Some False show ?thesis by (simp add: getSnakemakeTasks_no_file tasks_of_def)
    next
      case True
      obtain error out err where r: "cp_exec h ''snakemake --list'' root = (error, out, err)"
        by (cases "cp_exec h ''snakemake --list'' root")
      show ?thesis
      proof (cases error)
        case None
        with Some False True r show ?thesis
          by (auto simp add: getSnakemakeTasks_ok tasks_of_def)
      next
        case (Some e)
        with \<open>workspace_rootPath h = Some root\<close> False True r show ?thesis
          by (simp add: getSnakemakeTasks_failed tasks_of_def)
      qed
    qed
  qed
qed

lemma sublist_indexOf_from: "indexOf_from s pat k \<noteq> - 1 \<longleftrightarrow> sublist pat s"
  by (induction s pat k rule: indexOf_from.induct) (auto simp: sublist_Cons_right)

lemma indexOf_iff: "indexOf s pat \<noteq> - 1 \<longleftrightarrow> sublist pat s"
  by (simp add: indexOf_def sublist_indexOf_from)

lemma isBuildTask_iff:
  "isBuildTask nm \<longleftrightarrow> sublist ''build'' nm \<or> sublist ''compile'' nm \<or> sublist ''watch'' nm"
  using indexOf_iff by (simp add: isBuildTask_def buildNames_def)

lemma isTestTask_iff: "isTestTask nm \<longleftrightarrow> sublist ''test'' nm"
  using indexOf_iff by (simp add: isTestTask_def testNames_def)

lemma make_task_simps:
  "task_name (make_task l) = l"
  "task_group (make_task l) = Some Build"
  "task_execution (make_task l) = ShellExecution (''snakemake '' @ l)"
  by (simp_all add: make_task_def new_Task_def Let_def)

lemma host_ok_simps:
  "workspace_rootPath (host_ok out err) = Some ''/w''"
  "fs_exists (host_ok out err) (slash_join ''/w'' ''Snakefile'')"
  "cp_exec (host_ok out err) cmd cwd = (None, out, err)"
  by (simp_all add: host_ok_def slash_join_def)

lemma host_failing_simps:
  "workspace_rootPath (host_failing e out err) = Some ''/w''"
  "fs_exists (host_failing e out err) (slash_join ''/w'' ''Snakefile'')"
  "cp_exec (host_failing e out err) cmd cwd = (Some e, out, err)"
  by (simp_all add: host_failing_def slash_join_def)

lemma split_example: "split_lines example_stdout = [''build_all'', ''run_tests'', ''cleanup'', []]"
  by (simp add: split_lines_def example_stdout_def)


lemma example_tasks:
  "getSnakemakeTasks slash_join (host_ok example_stdout err) c
     = (Done (Inr [make_task ''build_all'', make_task ''run_tests'', make_task ''cleanup'']),
        (if err \<noteq> [] then Some (reveal True (appendLine err (getOutputChannel c))) else c),
        [FsExists ''/w/Snakefile'', CpExec ''snakemake --list'' ''/w''])"
  using getSnakemakeTasks_ok[of "host_ok example_stdout err" "''/w''" slash_join example_stdout err c]
  by (simp add: host_ok_simps split_example) (simp add: slash_join_def)


section \<open>Task groups\<close>

text \<open>
  C1 as stated (a task is grouped by its name: Build for a name with \<^verbatim>\<open>build\<close>,
  \<^verbatim>\<open>compile\<close> or \<^verbatim>\<open>watch\<close>, else Test for a name with \<^verbatim>\<open>test\<close>, else no group)
  fails: for the output line \<^verbatim>\<open>run_tests\<close> discovery produces one task, in group Build,
  where the name-based classification is Test.
\<close>

theorem C1_counterexample:
  "tasks_of (fst (getSnakemakeTasks slash_join (host_ok (''run_tests'' @ [LF]) []) None))
     = [make_task ''run_tests'']
   \<and> task_group (make_task ''run_tests'') = Some Build
   \<and> classification_spec (task_name (make_task ''run_tests'')) = Some Test"
proof -
  have "getSnakemakeTasks slash_join (host_ok (''run_tests'' @ [LF]) []) None
      = (Done (Inr (map make_task (filter (\<lambda>l. l \<noteq> []) (split_lines (''run_tests'' @ [LF]))))),
         None, [FsExists (slash_join ''/w'' ''Snakefile''), CpExec ''snakemake --list'' ''/w''])"
    using getSnakemakeTasks_ok[of "host_ok (''run_tests'' @ [LF]) []" "''/w''" slash_join
        "''run_tests'' @ [LF]" "[]" None]
    by (simp add: host_ok_simps)
  moreover have "split_lines (''run_tests'' @ [LF]) = [''run_tests'', []]"
    by (simp add: split_lines_def)
  moreover have "classification_spec ''run_tests'' = Some Test"
    by (simp add: classification_spec_def isBuildTask_def isTestTask_def buildNames_def
        testNames_def indexOf_def)
  ultimately show ?thesis
    by (simp add: tasks_of_def make_task_simps)
qed


text \<open>
  C1, amended: every task produced by a discovery pass is in group Build, whatever its
  name and whatever the host answered; the name predicates are not consulted.
\<close>

theorem C1_all_tasks_build:
  "\<forall>t \<in> set (tasks_of (fst (getSnakemakeTasks pjoin h c))). task_group t = Some Build"
proof -
  obtain ls where "tasks_of (fst (getSnakemakeTasks pjoin h c)) = map make_task ls"
    using tasks_shape by blast
  then show ?thesis by (auto simp: make_task_simps)
qed

text \<open>
  An instance of the amended C1: in the pass over the example output the task named
  \<^verbatim>\<open>run_tests\<close> is among the results and is in group Build.
\<close>

theorem C1_all_tasks_build_witness:
  "make_task ''run_tests'' \<in> set (tasks_of (fst (getSnakemakeTasks slash_join (host_ok example_stdout []) None)))
   \<and> task_group (make_task ''run_tests'') = Some Build"
  using C1_all_tasks_build[of slash_join "host_ok example_stdout []" None]
  by (simp add: example_tasks tasks_of_def make_task_simps)

text \<open>
  C2 as stated (for the output of the three lines \<^verbatim>\<open>build_all\<close>, \<^verbatim>\<open>run_tests\<close>,
  \<^verbatim>\<open>cleanup\<close> the tasks are classified Build, Test, none) fails: the groups of the three
  tasks are not that list.
\<close>

theorem C2_counterexample:
  "map task_group (tasks_of (fst (getSnakemakeTasks slash_join (host_ok example_stdout []) None)))
     \<noteq> [Some Build, Some Test, None]"
  by (simp add: example_tasks tasks_of_def make_task_simps)

text \<open>
  C2, amended: whenever the tool succeeds with that output, discovery resolves with exactly
  three tasks, in the order emitted, named \<^verbatim>\<open>build_all\<close>, \<^verbatim>\<open>run_tests\<close>, \<^verbatim>\<open>cleanup\<close>,
  and all three are in group Build.
\<close>

theorem C2_example_output:
  assumes "workspace_rootPath h = Some root" "root \<noteq> []"
    and "fs_exists h (pjoin root ''Snakefile'')"
    and "cp_exec h ''snakemake --list'' root = (None, example_stdout, err)"
  shows "fst (getSnakemakeTasks pjoin h c)
           = Done (Inr [make_task ''build_all'', make_task ''run_tests'', make_task ''cleanup''])
       \<and> map task_name (tasks_of (fst (getSnakemakeTasks pjoin h c)))
           = [''build_all'', ''run_tests'', ''cleanup'']
       \<and> map task_group (tasks_of (fst (getSnakemakeTasks pjoin h c)))
           = [Some Build, Some Build, Some Build]"
  using getSnakemakeTasks_ok[of h root pjoin example_stdout err c] assms
  by (simp add: split_example tasks_of_def make_task_simps)

text \<open>
  An instance of the amended C2 on the example host.
\<close>

theorem C2_example_output_witness:
  "workspace_rootPath (host_ok example_stdout []) = Some ''/w'' \<and> ''/w'' \<noteq> []
   \<and> fs_exists (host_ok example_stdout []) (slash_join ''/w'' ''Snakefile'')
   \<and> cp_exec (host_ok example_stdout []) ''snakemake --list'' ''/w'' = (None, example_stdout, [])
   \<and> map task_name (tasks_of (fst (getSnakemakeTasks slash_join (host_ok example_stdout []) None)))
           = [''build_all'', ''run_tests'', ''cleanup'']
   \<and> map task_group (tasks_of (fst (getSnakemakeTasks slash_join (host_ok example_stdout []) None)))
           = [Some Build, Some Build, Some Build]"
  using C2_example_output[of "host_ok example_stdout []" "''/w''" slash_join "[]" None]
  by (simp add: host_ok_simps tasks_of_def make_task_simps)

section \<open>Failure of the external tool\<close>

lemma logged_simps:
  "logged (Some (appendLine s ch)) = channel_ops ch @ [AppendLine s]"
  "logged (Some (reveal b ch)) = channel_ops ch @ [Show b]"
  "channel_ops (appendLine s ch) = channel_ops ch @ [AppendLine s]"
  "channel_ops (reveal b ch) = channel_ops ch @ [Show b]"
  "channel_ops (getOutputChannel c) = logged c"
  by (simp_all add: logged_def appendLine_def reveal_def getOutputChannel_def split: option.splits)

text \<open>
  C3 as stated (on failure the captured stderr and then the captured stdout are appended
  to the channel, then the diagnostic) fails: when the tool exits with status 1, stderr
  \<^verbatim>\<open>rule not found\<close> and nothing on stdout, no line is appended for stdout.
\<close>

theorem C3_counterexample:
  "logged (fst (snd (getSnakemakeTasks slash_join
       (host_failing (ExitedWith 1) [] ''rule not found'') None)))
     \<noteq> [AppendLine ''rule not found'', AppendLine [],
         AppendLine ''Auto detecting Snakemake tasts failed.'', Show True]"
  using getSnakemakeTasks_failed[of "host_failing (ExitedWith 1) [] ''rule not found''" "''/w''"
      slash_join "ExitedWith 1" "[]" "''rule not found''" None]
  by (simp add: host_failing_simps logged_simps)

text \<open>
  C3, amended: whenever the invocation fails, discovery appends to the channel the captured
  stderr if it is not empty, then the captured stdout if it is not empty, then the fixed
  diagnostic line, reveals the channel, and resolves with the empty list; the pass is
  fulfilled, not rejected.
\<close>

theorem C3_failure_degrades:
  assumes "workspace_rootPath h = Some root" "root \<noteq> []"
    and "fs_exists h (pjoin root ''Snakefile'')"
    and "cp_exec h ''snakemake --list'' root = (Some e, out, err)"
  shows "fst (getSnakemakeTasks pjoin h c) = Done (Inr [])
       \<and> logged (fst (snd (getSnakemakeTasks pjoin h c)))
           = logged c @ (if err \<noteq> [] then [AppendLine err] else [])
                      @ (if out \<noteq> [] then [AppendLine out] else [])
                      @ [AppendLine ''Auto detecting Snakemake tasts failed.'', Show True]"
  using getSnakemakeTasks_failed[of h root pjoin e out err c] assms
  by (simp add: logged_simps)

text \<open>
  An instance of the amended C3: exit status 1 with text on both streams.
\<close>

theorem C3_failure_degrades_witness:
  "workspace_rootPath (host_failing (ExitedWith 1) ''partial'' ''rule not found'') = Some ''/w''
   \<and> ''/w'' \<noteq> []
   \<and> fs_exists (host_failing (ExitedWith 1) ''partial'' ''rule not found'') (slash_join ''/w'' ''Snakefile'')
   \<and> cp_exec (host_failing (ExitedWith 1) ''partial'' ''rule not found'') ''snakemake --list'' ''/w''
        = (Some (ExitedWith 1), ''partial'', ''rule not found'')
   \<and> fst (getSnakemakeTasks slash_join (host_failing (ExitedWith 1) ''partial'' ''rule not found'') None)
        = Done (Inr [])
   \<and> logged (fst (snd (getSnakemakeTasks slash_join
         (host_failing (ExitedWith 1) ''partial'' ''rule not found'') None)))
        = [AppendLine ''rule not found'', AppendLine ''partial'',
           AppendLine ''Auto detecting Snakemake tasts failed.'', Show True]"
  using C3_failure_degrades[of "host_failing (ExitedWith 1) ''partial'' ''rule not found''" "''/w''"
      slash_join "ExitedWith 1" "''partial''" "''rule not found''" None]
  by (simp add: host_failing_simps logged_def)

section \<open>A workspace without a Snakefile\<close>

text \<open>
  C6: when the existence check of the Snakefile in the workspace root fails, discovery
  resolves with the empty list, never calls the external tool, and logs nothing.
\<close>

theorem C6_no_snakefile:
  assumes "workspace_rootPath h = Some root"
    and "\<not> fs_exists h (pjoin root ''Snakefile'')"
  shows "fst (getSnakemakeTasks pjoin h c) = Done (Inr [])
       \<and> fst (snd (getSnakemakeTasks pjoin h c)) = c
       \<and> (\<forall>cmd cwd. CpExec cmd cwd \<notin> set (snd (snd (getSnakemakeTasks pjoin h c))))"
proof (cases "root = []")
  case True
  with assms show ?thesis by (simp add: getSnakemakeTasks_no_root)
next
  case False
  with assms show ?thesis by (simp add: getSnakemakeTasks_no_file)
qed

text \<open>
  An instance of C6: the only host call of the pass is the existence check.
\<close>

theorem C6_no_snakefile_witness:
  "workspace_rootPath host_no_file = Some ''/w''
   \<and> \<not> fs_exists host_no_file (slash_join ''/w'' ''Snakefile'')
   \<and> getSnakemakeTasks slash_join host_no_file None
        = (Done (Inr []), None, [FsExists ''/w/Snakefile''])"
proof -
  have h: "workspace_rootPath host_no_file = Some ''/w''"
    "\<not> fs_exists host_no_file (slash_join ''/w'' ''Snakefile'')"
    by (simp_all add: host_no_file_def)
  have "snd (snd (getSnakemakeTasks slash_join host_no_file None)) = [FsExists ''/w/Snakefile'']"
    using getSnakemakeTasks_no_file[of host_no_file "''/w''" slash_join None] h
    by (simp add: slash_join_def)
  with C6_no_snakefile[of host_no_file "''/w''" slash_join None] h show ?thesis
    by (cases "getSnakemakeTasks slash_join host_no_file None") simp
qed

section \<open>Lines of the tool output\<close>

text \<open>
  C7: on a successful invocation whose output reads as the lines \<open>ls\<close> (each ended by a
  line feed or by carriage return plus line feed) followed by \<open>rest\<close>, the names of the
  resulting tasks are exactly the lines that are not empty, in order and unchanged; when
  every line is empty the result is the empty list.
\<close>

theorem C7_lines_become_names:
  assumes "workspace_rootPath h = Some root" "root \<noteq> []"
    and "fs_exists h (pjoin root ''Snakefile'')"
    and "cp_exec h ''snakemake --list'' root = (None, emit_lines ls rest, err)"
    and "\<forall>(l, crlf) \<in> set ls. plain_line l crlf" and "LF \<notin> set rest"
  shows "fst (getSnakemakeTasks pjoin h c)
           = Done (Inr (tasks_of (fst (getSnakemakeTasks pjoin h c))))
       \<and> map task_name (tasks_of (fst (getSnakemakeTasks pjoin h c)))
           = filter (\<lambda>l. l \<noteq> []) (map fst ls @ [rest])
       \<and> ((\<forall>l \<in> set (map fst ls @ [rest]). l = [])
            \<longrightarrow> fst (getSnakemakeTasks pjoin h c) = Done (Inr []))"
proof -
  have names: "map (task_name \<circ> make_task) xs = xs" for xs
    by (induction xs) (simp_all add: make_task_simps)
  have blank: "(\<forall>l \<in> set xs. l = []) \<Longrightarrow> filter (\<lambda>l. l \<noteq> []) xs = []" for xs :: "string list"
    by (induction xs) simp_all
  from getSnakemakeTasks_ok[of h root pjoin "emit_lines ls rest" err c] assms(1-4)
    split_lines_emit[OF assms(5,6)]
  have r: "fst (getSnakemakeTasks pjoin h c)
      = Done (Inr (map make_task (filter (\<lambda>l. l \<noteq> []) (map fst ls @ [rest]))))"
    by simp
  show ?thesis
    unfolding r using blank[of "map fst ls @ [rest]"]
    by (simp add: tasks_of_def names del: filter_append map_append)
qed

text \<open>
  Two instances of C7: an output with both endings, an empty line and a name with trailing
  blanks, which is kept as it is; and an output of blank lines only.
\<close>

theorem C7_lines_become_names_witness:
  "workspace_rootPath (host_ok (emit_lines [(''all'', False), ([], True), (''a b '', True)] ''x'') [])
      = Some ''/w''
   \<and> ''/w'' \<noteq> []
   \<and> fs_exists (host_ok (emit_lines [(''all'', False), ([], True), (''a b '', True)] ''x'') [])
        (slash_join ''/w'' ''Snakefile'')
   \<and> cp_exec (host_ok (emit_lines [(''all'', False), ([], True), (''a b '', True)] ''x'') [])
        ''snakemake --list'' ''/w''
      = (None, emit_lines [(''all'', False), ([], True), (''a b '', True)] ''x'', [])
   \<and> plain_line ''all'' False \<and> plain_line [] True \<and> plain_line ''a b '' True \<and> LF \<notin> set ''x''
   \<and> emit_lines [(''all'', False), ([], True), (''a b '', True)] ''x''
      = ''all'' @ [LF, CR, LF] @ ''a b '' @ [CR, LF] @ ''x''
   \<and> map task_name (tasks_of (fst (getSnakemakeTasks slash_join
        (host_ok (emit_lines [(''all'', False), ([], True), (''a b '', True)] ''x'') []) None)))
      = [''all'', ''a b '', ''x'']
   \<and> emit_lines [([], False), ([], True)] [] = [LF, CR, LF]
   \<and> fst (getSnakemakeTasks slash_join (host_ok (emit_lines [([], False), ([], True)] []) []) None)
      = Done (Inr [])"
  using C7_lines_become_names[of
      "host_ok (emit_lines [(''all'', False), ([], True), (''a b '', True)] ''x'') []"
      "''/w''" slash_join "[(''all'', False), ([], True), (''a b '', True)]" "''x''" "[]" None]
    C7_lines_become_names[of "host_ok (emit_lines [([], False), ([], True)] []) []"
      "''/w''" slash_join "[([], False), ([], True)]" "[]" "[]" None]
  by (simp add: host_ok_simps plain_line_def emit_lines_def line_ending_def)

section \<open>Standard error of a successful invocation\<close>

text \<open>
  C8: a callback without error fulfils the promise of \<^verbatim>\<open>exec\<close> with both streams,
  whatever stderr holds, and only a callback with an error rejects it; a successful pass
  with text on stderr appends that text to the channel and reveals it, and resolves with
  the same tasks as it would with an empty stderr.
\<close>

theorem C8_stderr_is_advisory:
  assumes "workspace_rootPath h = Some root" "root \<noteq> []"
    and "fs_exists h (pjoin root ''Snakefile'')"
    and "cp_exec h ''snakemake --list'' root = (None, out, err)"
    and "err \<noteq> []"
  shows "exec_callback None out err = Fulfilled \<lparr>out_stdout = out, out_stderr = err\<rparr>
       \<and> exec_callback (Some e) out err
           = Rejected \<lparr>rej_error = e, rej_stdout = out, rej_stderr = err\<rparr>
       \<and> logged (fst (snd (getSnakemakeTasks pjoin h c))) = logged c @ [AppendLine err, Show True]
       \<and> fst (getSnakemakeTasks pjoin h c)
           = Done (Inr (map make_task (filter (\<lambda>l. l \<noteq> []) (split_lines out))))
       \<and> fst (getSnakemakeTasks pjoin h c)
           = fst (getSnakemakeTasks pjoin (h\<lparr>cp_exec := \<lambda>cmd cwd. (None, out, [])\<rparr>) c)"
proof -
  let ?h' = "h\<lparr>cp_exec := \<lambda>cmd cwd. (None, out, [])\<rparr>"
  have "getSnakemakeTasks pjoin ?h' c =
    (Done (Inr (map make_task (filter (\<lambda>l. l \<noteq> []) (split_lines out)))), c,
     [FsExists (pjoin root ''Snakefile''), CpExec ''snakemake --list'' root])"
    using getSnakemakeTasks_ok[of ?h' root pjoin out "[]" c] assms(1-3) by simp
  with getSnakemakeTasks_ok[of h root pjoin out err c] assms show ?thesis
    by (simp add: exec_callback_ok exec_callback_failed logged_simps)
qed

text \<open>
  An instance of C8: the example output accompanied by a warning on stderr.
\<close>

theorem C8_stderr_is_advisory_witness:
  "workspace_rootPath (host_ok example_stdout ''warning: x'') = Some ''/w'' \<and> ''/w'' \<noteq> []
   \<and> fs_exists (host_ok example_stdout ''warning: x'') (slash_join ''/w'' ''Snakefile'')
   \<and> cp_exec (host_ok example_stdout ''warning: x'') ''snakemake --list'' ''/w''
        = (None, example_stdout, ''warning: x'')
   \<and> ''warning: x'' \<noteq> []
   \<and> logged (fst (snd (getSnakemakeTasks slash_join (host_ok example_stdout ''warning: x'') None)))
        = [AppendLine ''warning: x'', Show True]
   \<and> fst (getSnakemakeTasks slash_join (host_ok example_stdout ''warning: x'') None)
        = Done (Inr [make_task ''build_all'', make_task ''run_tests'', make_task ''cleanup''])"
  using C8_stderr_is_advisory[of "host_ok example_stdout ''warning: x''" "''/w''" slash_join
      example_stdout "''warning: x''" "ExitedWith 1" None]
  by (simp add: host_ok_simps split_example logged_def)

section \<open>Command lines\<close>

text \<open>
  C9: for every non-empty line of the output the task's shell command is the text
  \<^verbatim>\<open>snakemake\<close>, one blank, and the line as it is; nothing is quoted or escaped.
\<close>

theorem C9_command_line:
  assumes "workspace_rootPath h = Some root" "root \<noteq> []"
    and "fs_exists h (pjoin root ''Snakefile'')"
    and "cp_exec h ''snakemake --list'' root = (None, out, err)"
  shows "map task_execution (tasks_of (fst (getSnakemakeTasks pjoin h c)))
           = map (\<lambda>line. ShellExecution (''snakemake '' @ line))
               (filter (\<lambda>line. line \<noteq> []) (split_lines out))
       \<and> (\<forall>t \<in> set (tasks_of (fst (getSnakemakeTasks pjoin h c))).
             task_execution t = ShellExecution (''snakemake '' @ task_name t))"
proof -
  have ex: "map (task_execution \<circ> make_task) xs = map (\<lambda>line. ShellExecution (''snakemake '' @ line)) xs" for xs
    by (induction xs) (simp_all add: make_task_simps)
  from getSnakemakeTasks_ok[of h root pjoin out err c] assms show ?thesis
    by (auto simp: tasks_of_def ex make_task_simps)
qed

text \<open>
  An instance of C9: a name with a blank and a semicolon goes into the command unchanged.
\<close>

theorem C9_command_line_witness:
  "workspace_rootPath (host_ok (''a b;c'' @ [LF] @ ''all'') []) = Some ''/w'' \<and> ''/w'' \<noteq> []
   \<and> fs_exists (host_ok (''a b;c'' @ [LF] @ ''all'') []) (slash_join ''/w'' ''Snakefile'')
   \<and> cp_exec (host_ok (''a b;c'' @ [LF] @ ''all'') []) ''snakemake --list'' ''/w''
        = (None, ''a b;c'' @ [LF] @ ''all'', [])
   \<and> map task_execution (tasks_of (fst (getSnakemakeTasks slash_join
          (host_ok (''a b;c'' @ [LF] @ ''all'') []) None)))
        = [ShellExecution ''snakemake a b;c'', ShellExecution ''snakemake all'']"
  using C9_command_line[of "host_ok (''a b;c'' @ [LF] @ ''all'') []" "''/w''" slash_join
      "''a b;c'' @ [LF] @ ''all''" "[]" None]
  by (simp add: host_ok_simps split_lines_def)

section \<open>The cache slot\<close>


































section \<open>The workspace root\<close>

text \<open>
  C10: a pass that finds the workspace root unset resolves with the empty list without an
  existence check or an invocation, also when it is requested from an extension that was
  activated with a root; and activation without a root registers neither the watcher nor
  the task provider.
\<close>

theorem C10_root_read_each_pass:
  "(workspace_rootPath h = None \<longrightarrow> getSnakemakeTasks pjoin h c = (Done (Inr []), c, []))
   \<and> taskProvider (activate pjoin None) = None \<and> fileWatcher (activate pjoin None) = None
   \<and> (taskProvider s \<noteq> None \<and> snakemakePromise s = None \<longrightarrow>
        promises (step pjoin s (ProvideTasks None)) = promises s @ [Done (Inr [])]
      \<and> snakemakePromise (step pjoin s (ProvideTasks None)) = Some (length (promises s))
      \<and> calls (step pjoin s (ProvideTasks None)) = calls s)"
  by (simp add: getSnakemakeTasks_no_root activate_def inactive_def provideTasks_def
      getSnakemakeTasks_start_def Let_def)

text \<open>
  An instance of C10: the extension is activated in \<^verbatim>\<open>/w\<close> and asked for tasks when
  the root is unset.
\<close>

theorem C10_root_read_each_pass_witness:
  "workspace_rootPath host_no_root = None
   \<and> getSnakemakeTasks slash_join host_no_root None = (Done (Inr []), None, [])
   \<and> taskProvider (activate slash_join (Some ''/w'')) \<noteq> None
   \<and> snakemakePromise (activate slash_join (Some ''/w'')) = None
   \<and> promises (step slash_join (activate slash_join (Some ''/w'')) (ProvideTasks None))
        = [Done (Inr [])]
   \<and> calls (step slash_join (activate slash_join (Some ''/w'')) (ProvideTasks None)) = []"
  using C10_root_read_each_pass[of host_no_root slash_join None "activate slash_join (Some ''/w'')"]
  by (simp add: host_no_root_def activate_def inactive_def)

end
